theory Spec2Isabelle
  imports Main
begin

section \<open>C object types and their layout\<close>

text \<open>
  The translation unit declares two unions, \<open>KGDTENTRY64\<close> and \<open>KIDTENTRY64\<close>, out of
  four integer types, plain members, bit-fields and anonymous struct/union members.
\<close>

datatype prim = UChar | UShort | ULong | UInt64

datatype ctype =
    Prim prim
  | Struct "member list"
  | Union "member list"
and member =
    Field string ctype
  | BitField string prim nat
  | Anon ctype

text \<open>
  The widths of the integer types are fixed by the target, not by the header. The
  headers of the driver kit are compiled for Windows only, whose data model is LLP64:
  \<open>unsigned long\<close> has 4 bytes. LP64 (8 bytes) is kept beside it for comparison.
  \<open>unsigned __int64\<close> has 8 bytes by its name. Every integer type is aligned to its
  size.
\<close>

datatype data_model = LLP64 | LP64

fun prim_size :: "data_model \<Rightarrow> prim \<Rightarrow> nat" where
  "prim_size dm UChar = 1"
| "prim_size dm UShort = 2"
| "prim_size LLP64 ULong = 4"
| "prim_size LP64 ULong = 8"
| "prim_size dm UInt64 = 8"

definition round_up :: "nat \<Rightarrow> nat \<Rightarrow> nat" where
  "round_up x a = ((x + a - 1) div a) * a"

text \<open>
  What the layout of a struct or union needs to know of one member: a plain member
  has a size and an alignment in bytes, a bit-field the size in bytes of its declared
  type and a width in bits.
\<close>

datatype slot = Plain nat nat | Bits nat nat

fun slot_width :: "slot \<Rightarrow> nat" where
  "slot_width (Plain sz al) = 8 * sz"
| "slot_width (Bits usz w) = w"

text \<open>
  The record layout is that of the compiler of the driver kit. The layout state while
  the members of a struct are placed, in bits: the end of the storage allocated so
  far, and the open bit-field unit if the last member was a bit-field of positive
  width (where the unit starts, how many bits it has, how many are taken).

  A plain member goes to the next offset aligned for it. A bit-field goes into the
  open unit when that unit has the size of the bit-field's type and enough bits left;
  otherwise a new unit of the type's size is allocated at the next aligned offset.

  The widths in the source are all positive. A bit-field of width zero, which C
  allows without a name only, is ignored unless it comes right after a bit-field of
  positive width; there it closes the unit and moves the end of storage to the next
  offset aligned for its type.
\<close>

type_synonym lstate = "nat \<times> (nat \<times> nat \<times> nat) option"

definition new_unit :: "nat \<Rightarrow> nat \<Rightarrow> nat \<Rightarrow> nat \<times> lstate" where
  "new_unit usz w pos =
     (let p = round_up pos (8 * usz) in (p, (p + 8 * usz, Some (p, 8 * usz, w))))"

fun place :: "slot \<Rightarrow> lstate \<Rightarrow> nat \<times> lstate" where
  "place (Plain sz al) (pos, u) =
     (let p = round_up pos (8 * al) in (p, (p + 8 * sz, None)))"
| "place (Bits usz w) (pos, None) =
     (if w = 0 then (pos, (pos, None)) else new_unit usz w pos)"
| "place (Bits usz w) (pos, Some (start, ubits, used)) =
     (if w = 0 then (let p = round_up pos (8 * usz) in (p, (p, None)))
      else if ubits = 8 * usz \<and> used + w \<le> ubits
        then (start + used, (pos, Some (start, ubits, used + w)))
      else new_unit usz w pos)"

text \<open>The bit offsets of the members of a struct, in order, and the end of storage.\<close>

fun place_all :: "slot list \<Rightarrow> lstate \<Rightarrow> nat list \<times> nat" where
  "place_all [] (pos, u) = ([], pos)"
| "place_all (s # ss) st =
     (case place s st of (off, st') \<Rightarrow>
        (case place_all ss st' of (offs, e) \<Rightarrow> (off # offs, e)))"

text \<open>
  The alignment of a struct is the largest alignment among its plain members and its
  bit-fields; a bit-field of width zero counts where it is not ignored. The flag says
  whether the member before was a bit-field of positive width.
\<close>

fun struct_align :: "bool \<Rightarrow> slot list \<Rightarrow> nat" where
  "struct_align b [] = 1"
| "struct_align b (Plain sz al # ss) = max al (struct_align False ss)"
| "struct_align b (Bits usz w # ss) =
     (if w = 0 then (if b then max usz (struct_align False ss) else struct_align False ss)
      else max usz (struct_align True ss))"

definition struct_size :: "slot list \<Rightarrow> nat" where
  "struct_size ss =
     round_up (snd (place_all ss (0, None))) (8 * struct_align False ss) div 8"

text \<open>
  In a union every member starts at offset 0. The union is as large as its largest
  member, rounded up to its alignment; a bit-field member counts with the size of its
  type, but only the plain members count for the alignment.
\<close>

fun union_extent :: "bool \<Rightarrow> slot list \<Rightarrow> nat" where
  "union_extent b [] = 0"
| "union_extent b (Plain sz al # ss) = max sz (union_extent False ss)"
| "union_extent b (Bits usz w # ss) =
     (if w = 0 then (if b then max usz (union_extent False ss) else union_extent False ss)
      else max usz (union_extent True ss))"

fun union_align :: "slot list \<Rightarrow> nat" where
  "union_align [] = 1"
| "union_align (Plain sz al # ss) = max al (union_align ss)"
| "union_align (Bits usz w # ss) = union_align ss"

definition union_size :: "slot list \<Rightarrow> nat" where
  "union_size ss = round_up (union_extent False ss) (union_align ss)"

fun sizeof :: "data_model \<Rightarrow> ctype \<Rightarrow> nat"
  and alignof :: "data_model \<Rightarrow> ctype \<Rightarrow> nat"
  and member_slot :: "data_model \<Rightarrow> member \<Rightarrow> slot" where
  "sizeof dm (Prim p) = prim_size dm p"
| "sizeof dm (Struct ms) = struct_size (map (member_slot dm) ms)"
| "sizeof dm (Union ms) = union_size (map (member_slot dm) ms)"
| "alignof dm (Prim p) = prim_size dm p"
| "alignof dm (Struct ms) = struct_align False (map (member_slot dm) ms)"
| "alignof dm (Union ms) = union_align (map (member_slot dm) ms)"
| "member_slot dm (Field n t) = Plain (sizeof dm t) (alignof dm t)"
| "member_slot dm (BitField n p w) = Bits (prim_size dm p) w"
| "member_slot dm (Anon t) = Plain (sizeof dm t) (alignof dm t)"

text \<open>
  The members of a struct or union type with their bit offsets and bit widths. Every
  member of a union starts at offset 0.
\<close>

fun member_name :: "member \<Rightarrow> string" where
  "member_name (Field n t) = n"
| "member_name (BitField n p w) = n"
| "member_name (Anon t) = []"

fun members :: "ctype \<Rightarrow> member list" where
  "members (Prim p) = []"
| "members (Struct ms) = ms"
| "members (Union ms) = ms"

fun offsets :: "data_model \<Rightarrow> ctype \<Rightarrow> nat list" where
  "offsets dm (Prim p) = []"
| "offsets dm (Struct ms) = fst (place_all (map (member_slot dm) ms) (0, None))"
| "offsets dm (Union ms) = map (\<lambda>m. 0) ms"

definition fields :: "data_model \<Rightarrow> ctype \<Rightarrow> (string \<times> nat \<times> nat) list" where
  "fields dm t =
     map (\<lambda>(m, off). (member_name m, off, slot_width (member_slot dm m)))
       (zip (members t) (offsets dm t))"

definition bit_sum :: "data_model \<Rightarrow> ctype \<Rightarrow> nat" where
  "bit_sum dm t = sum_list (map (\<lambda>m. slot_width (member_slot dm m)) (members t))"

text \<open>
  The fields lie back to back from bit \<open>p\<close> on: each one starts where the one before
  it ends.
\<close>

fun packed_from :: "nat \<Rightarrow> (string \<times> nat \<times> nat) list \<Rightarrow> bool" where
  "packed_from p [] = True"
| "packed_from p ((n, off, w) # fs) = (off = p \<and> packed_from (p + w) fs)"

subsection \<open>The two descriptor-table entry types of the translation unit\<close>

definition KGDTENTRY64_Bytes :: ctype where
  "KGDTENTRY64_Bytes = Struct
     [Field ''BaseMiddle'' (Prim UChar),
      Field ''Flags1'' (Prim UChar),
      Field ''Flags2'' (Prim UChar),
      Field ''BaseHigh'' (Prim UChar)]"

definition KGDTENTRY64_Bits :: ctype where
  "KGDTENTRY64_Bits = Struct
     [BitField ''BaseMiddle'' ULong 8,
      BitField ''Type'' ULong 5,
      BitField ''Dpl'' ULong 2,
      BitField ''Present'' ULong 1,
      BitField ''LimitHigh'' ULong 4,
      BitField ''System'' ULong 1,
      BitField ''LongMode'' ULong 1,
      BitField ''DefaultBig'' ULong 1,
      BitField ''Granularity'' ULong 1,
      BitField ''BaseHigh'' ULong 8]"

definition KGDTENTRY64_middle :: ctype where
  "KGDTENTRY64_middle = Union
     [Field ''Bytes'' KGDTENTRY64_Bytes,
      Field ''Bits'' KGDTENTRY64_Bits]"

definition KGDTENTRY64_struct :: ctype where
  "KGDTENTRY64_struct = Struct
     [Field ''LimitLow'' (Prim UShort),
      Field ''BaseLow'' (Prim UShort),
      Anon KGDTENTRY64_middle,
      Field ''BaseUpper'' (Prim ULong),
      Field ''MustBeZero'' (Prim ULong)]"

definition KGDTENTRY64 :: ctype where
  "KGDTENTRY64 = Union
     [Anon KGDTENTRY64_struct,
      Field ''Alignment'' (Prim UInt64)]"

definition KIDTENTRY64_struct :: ctype where
  "KIDTENTRY64_struct = Struct
     [Field ''OffsetLow'' (Prim UShort),
      Field ''Selector'' (Prim UShort),
      BitField ''IstIndex'' UShort 3,
      BitField ''Reserved0'' UShort 5,
      BitField ''Type'' UShort 5,
      BitField ''Dpl'' UShort 2,
      BitField ''Present'' UShort 1,
      Field ''OffsetMiddle'' (Prim UShort),
      Field ''OffsetHigh'' (Prim ULong),
      Field ''Reserved1'' (Prim ULong)]"

definition KIDTENTRY64 :: ctype where
  "KIDTENTRY64 = Union
     [Anon KIDTENTRY64_struct,
      Field ''Alignment'' (Prim UInt64)]"

text \<open>
  The two views of such a union: the anonymous struct of named fields, and the
  integer member beside it.
\<close>

fun structured_view :: "ctype \<Rightarrow> ctype option" where
  "structured_view (Union [Anon s, Field n r]) = Some s"
| "structured_view t = None"

fun raw_view :: "ctype \<Rightarrow> ctype option" where
  "raw_view (Union [Anon s, Field n r]) = Some r"
| "raw_view t = None"

section \<open>The translation units\<close>

text \<open>
  Both source files are input headers for a binding generator: a list of
  \<open>#include\<close> lines, conditional groups and, in the first, the two union
  declarations. The configuration flags of a build are the macros it defines.
  A condition tests with \<open>defined\<close> only, so the values of the macros play no part.
\<close>

type_synonym flags = "string set"

datatype cond = Defined string | Or cond cond

fun eval_cond :: "flags \<Rightarrow> cond \<Rightarrow> bool" where
  "eval_cond F (Defined m) = (m \<in> F)"
| "eval_cond F (Or a b) = (eval_cond F a \<or> eval_cond F b)"

text \<open>
  Constant expressions, for the compile-time assertions of the language
  (\<open>static_assert\<close>, \<open>C_ASSERT\<close>). Together with \<open>#error\<close> they are the two
  ways in which the text of a header can fail a build by itself.
\<close>

datatype cexpr = Num nat | SizeOf ctype | Equal cexpr cexpr

fun cexpr_val :: "data_model \<Rightarrow> cexpr \<Rightarrow> nat" where
  "cexpr_val dm (Num n) = n"
| "cexpr_val dm (SizeOf t) = sizeof dm t"
| "cexpr_val dm (Equal a b) = (if cexpr_val dm a = cexpr_val dm b then 1 else 0)"

datatype form = Quoted | Angled

datatype item =
    Include form string
  | Cond cond "item list" "item list"
  | Typedef string ctype string string
  | StaticAssert cexpr string
  | ErrorDirective string

text \<open>
  \<open>Cond c ts es\<close> is \<open>#if c ts #else es #endif\<close>; an \<open>#ifdef\<close> with no
  \<open>#else\<close> has \<open>es = []\<close>. \<open>Typedef tag t n p\<close> is
  \<open>typedef union tag {...} n, *p;\<close>.

  The surface that reaches the binding generator is the list of headers to read and
  types declared, in the order of the text. \<open>#include "h"\<close> and \<open>#include <h>\<close>
  name the same header.
\<close>

datatype decl = Hdr string | TypeName string ctype | PtrName string string

datatype error = DirectiveError string | AssertionFailed string

fun expand_item :: "data_model \<Rightarrow> flags \<Rightarrow> item \<Rightarrow> error + decl list"
  and expand :: "data_model \<Rightarrow> flags \<Rightarrow> item list \<Rightarrow> error + decl list" where
  "expand_item dm F (Include f h) = Inr [Hdr h]"
| "expand_item dm F (Cond c ts es) =
     (if eval_cond F c then expand dm F ts else expand dm F es)"
| "expand_item dm F (Typedef tag t n p) = Inr [TypeName n t, PtrName p n]"
| "expand_item dm F (StaticAssert e msg) =
     (if cexpr_val dm e \<noteq> 0 then Inr [] else Inl (AssertionFailed msg))"
| "expand_item dm F (ErrorDirective msg) = Inl (DirectiveError msg)"
| "expand dm F [] = Inr []"
| "expand dm F (i # is) =
     (case expand_item dm F i of
        Inl e \<Rightarrow> Inl e
      | Inr ds \<Rightarrow>
          (case expand dm F is of
             Inl e \<Rightarrow> Inl e
           | Inr ds' \<Rightarrow> Inr (ds @ ds')))"

text \<open>A failed build hands nothing on.\<close>

definition surface :: "data_model \<Rightarrow> flags \<Rightarrow> item list \<Rightarrow> decl list" where
  "surface dm F tu = (case expand dm F tu of Inl e \<Rightarrow> [] | Inr ds \<Rightarrow> ds)"

fun decl_name :: "decl \<Rightarrow> string" where
  "decl_name (Hdr h) = h"
| "decl_name (TypeName n t) = n"
| "decl_name (PtrName p n) = p"

definition names :: "data_model \<Rightarrow> flags \<Rightarrow> item list \<Rightarrow> string list" where
  "names dm F tu = map decl_name (surface dm F tu)"

text \<open>
  The conditions the preprocessor evaluates, in order: those of a skipped group are
  never looked at.
\<close>

fun evaluated_item :: "flags \<Rightarrow> item \<Rightarrow> cond list"
  and evaluated :: "flags \<Rightarrow> item list \<Rightarrow> cond list" where
  "evaluated_item F (Include f h) = []"
| "evaluated_item F (Cond c ts es) =
     c # (if eval_cond F c then evaluated F ts else evaluated F es)"
| "evaluated_item F (Typedef tag t n p) = []"
| "evaluated_item F (StaticAssert e msg) = []"
| "evaluated_item F (ErrorDirective msg) = []"
| "evaluated F [] = []"
| "evaluated F (i # is) = evaluated_item F i @ evaluated F is"

text \<open>What the text holds in all its groups, taken or not.\<close>

fun cond_macros :: "cond \<Rightarrow> string list" where
  "cond_macros (Defined m) = [m]"
| "cond_macros (Or a b) = cond_macros a @ cond_macros b"

fun item_macros :: "item \<Rightarrow> string list"
  and macros :: "item list \<Rightarrow> string list" where
  "item_macros (Include f h) = []"
| "item_macros (Cond c ts es) = cond_macros c @ macros ts @ macros es"
| "item_macros (Typedef tag t n p) = []"
| "item_macros (StaticAssert e msg) = []"
| "item_macros (ErrorDirective msg) = []"
| "macros [] = []"
| "macros (i # is) = item_macros i @ macros is"

fun item_checks :: "item \<Rightarrow> item list"
  and checks :: "item list \<Rightarrow> item list" where
  "item_checks (Include f h) = []"
| "item_checks (Cond c ts es) = checks ts @ checks es"
| "item_checks (Typedef tag t n p) = []"
| "item_checks (StaticAssert e msg) = [StaticAssert e msg]"
| "item_checks (ErrorDirective msg) = [ErrorDirective msg]"
| "checks [] = []"
| "checks (i # is) = item_checks i @ checks is"

fun item_all_names :: "item \<Rightarrow> string list"
  and all_names :: "item list \<Rightarrow> string list" where
  "item_all_names (Include f h) = [h]"
| "item_all_names (Cond c ts es) = all_names ts @ all_names es"
| "item_all_names (Typedef tag t n p) = [n, p]"
| "item_all_names (StaticAssert e msg) = []"
| "item_all_names (ErrorDirective msg) = []"
| "all_names [] = []"
| "all_names (i # is) = item_all_names i @ all_names is"

subsection \<open>The first translation unit\<close>

abbreviation UMDF_VERSION_MAJOR :: string where
  "UMDF_VERSION_MAJOR \<equiv> ''UMDF_VERSION_MAJOR''"

abbreviation KMDF_VERSION_MAJOR :: string where
  "KMDF_VERSION_MAJOR \<equiv> ''KMDF_VERSION_MAJOR''"

abbreviation KERNEL_MODE :: string where
  "KERNEL_MODE \<equiv> ''_KERNEL_MODE''"

definition hid_headers :: "item list" where
  "hid_headers =
     [Include Quoted ''hidclass.h'',
      Include Quoted ''hidport.h'',
      Include Quoted ''hidsdi.h'',
      Include Quoted ''kbdmou.h'',
      Include Quoted ''ntdd8042.h'',
      Include Quoted ''vhf.h'']"

text \<open>The USB lines are the same text in both files.\<close>

definition usb_headers :: "item list" where
  "usb_headers =
     [Include Quoted ''usbspec.h'',
      Include Quoted ''usb.h'',
      Include Quoted ''usbbusif.h'',
      Include Quoted ''usbioctl.h'',
      Include Quoted ''usbdlib.h'',
      Include Quoted ''usbfnbase.h'',
      Include Quoted ''usbfnattach.h'',
      Include Quoted ''usbfnioctl.h'',
      Include Quoted ''wdf.h'',
      Include Quoted ''wdfusb.h'']"

definition kernel_mode_headers :: "item list" where
  "kernel_mode_headers =
     [Include Quoted ''ntintsafe.h'',
      Include Quoted ''ntstrsafe.h'',
      Include Quoted ''pepfx.h'',
      Include Quoted ''ntddstor.h'',
      Include Quoted ''ude/1.0/UdeCx.h'']"

definition spb_headers :: "item list" where
  "spb_headers =
     [Include Quoted ''spb.h'',
      Include Quoted ''spb/1.1/spbcx.h'',
      Include Quoted ''reshub.h'',
      Include Quoted ''pwmutil.h'']"

definition parallel_ports_headers :: "item list" where
  "parallel_ports_headers =
     [Include Quoted ''gpio.h'',
      Include Quoted ''gpioclx.h'',
      Include Quoted ''ntddpar.h'',
      Include Quoted ''ntddser.h'',
      Include Quoted ''parallel.h'']"

definition descriptor_types :: "item list" where
  "descriptor_types =
     [Typedef ''_KGDTENTRY64'' KGDTENTRY64 ''KGDTENTRY64'' ''PKGDTENTRY64'',
      Typedef ''_KIDTENTRY64'' KIDTENTRY64 ''KIDTENTRY64'' ''PKIDTENTRY64'']"

definition not_umdf :: "item list" where
  "not_umdf =
     [Include Quoted ''ntifs.h'', Include Quoted ''ntddk.h'']
     @ hid_headers
     @ usb_headers
     @ [Cond (Defined KERNEL_MODE) kernel_mode_headers []]
     @ spb_headers
     @ parallel_ports_headers
     @ descriptor_types"

definition input_h :: "item list" where
  "input_h =
     [Cond (Defined UMDF_VERSION_MAJOR) [Include Angled ''windows.h''] not_umdf,
      Cond (Or (Defined KMDF_VERSION_MAJOR) (Defined UMDF_VERSION_MAJOR))
        [Include Angled ''wdf.h''] [],
      Include Quoted ''TraceLoggingProvider.h'']"

subsection \<open>The second translation unit, \<open>usb-input.h\<close>\<close>

definition usb_input_h :: "item list" where
  "usb_input_h =
     [Include Quoted ''ntddk.h'']
     @ usb_headers
     @ [Cond (Defined KERNEL_MODE) [Include Quoted ''ude/1.0/UdeCx.h''] []]"

section \<open>Dependency order of a surface\<close>

text \<open>
  Modelled from the spec: the name references between the externally supplied headers,
  whose contents are not part of the sources. The entries are the ones that claim C9
  lists: the headers that refer to the core USB group (\<open>usbspec.h\<close>, \<open>usb.h\<close>),
  and \<open>wdfusb.h\<close> as referring to \<open>wdf.h\<close> as well.
\<close>

definition header_refs :: "(string \<times> string list) list" where
  "header_refs =
     [(''usbbusif.h'', [''usbspec.h'', ''usb.h'']),
      (''usbioctl.h'', [''usbspec.h'', ''usb.h'']),
      (''usbdlib.h'', [''usbspec.h'', ''usb.h'']),
      (''usbfnbase.h'', [''usbspec.h'', ''usb.h'']),
      (''usbfnattach.h'', [''usbspec.h'', ''usb.h'']),
      (''usbfnioctl.h'', [''usbspec.h'', ''usb.h'']),
      (''wdfusb.h'', [''usbspec.h'', ''usb.h'', ''wdf.h''])]"

text \<open>
  The names a declaration refers to. The two unions are built from integer types
  only; the pointer name of a typedef refers to its type name.
\<close>

fun refs :: "decl \<Rightarrow> string list" where
  "refs (Hdr h) = (case map_of header_refs h of None \<Rightarrow> [] | Some rs \<Rightarrow> rs)"
| "refs (TypeName n t) = []"
| "refs (PtrName p n) = [n]"

text \<open>Every name a declaration refers to is declared at a smaller index.\<close>

definition dependency_ordered :: "decl list \<Rightarrow> bool" where
  "dependency_ordered ds =
     (\<forall>i < length ds. \<forall>r \<in> set (refs (ds ! i)). \<exists>j < i. decl_name (ds ! j) = r)"

text \<open>The same as a pass over the list that remembers the names seen so far.\<close>

fun ordered_from :: "string list \<Rightarrow> decl list \<Rightarrow> bool" where
  "ordered_from seen [] = True"
| "ordered_from seen (d # ds) =
     (list_all (\<lambda>r. r \<in> set seen) (refs d) \<and> ordered_from (decl_name d # seen) ds)"

section \<open>Layout facts\<close>

lemmas layout_defs = round_up_def new_unit_def struct_size_def union_size_def
  fields_def bit_sum_def Let_def

lemma sizeof_KGDTENTRY64_Bytes: "sizeof LLP64 KGDTENTRY64_Bytes = 4"
  by (simp add: KGDTENTRY64_Bytes_def layout_defs)

lemma sizeof_KGDTENTRY64_Bits: "sizeof LLP64 KGDTENTRY64_Bits = 4"
  by (simp add: KGDTENTRY64_Bits_def layout_defs)

lemma alignof_KGDTENTRY64_middle: "alignof LLP64 KGDTENTRY64_middle = 4"
  by (simp add: KGDTENTRY64_middle_def KGDTENTRY64_Bits_def KGDTENTRY64_Bytes_def)

lemma sizeof_KGDTENTRY64_middle: "sizeof LLP64 KGDTENTRY64_middle = 4"
  by (simp add: KGDTENTRY64_middle_def sizeof_KGDTENTRY64_Bytes sizeof_KGDTENTRY64_Bits
        layout_defs KGDTENTRY64_Bits_def KGDTENTRY64_Bytes_def)

lemma sizeof_KGDTENTRY64_struct: "sizeof LLP64 KGDTENTRY64_struct = 16"
  by (simp add: KGDTENTRY64_struct_def sizeof_KGDTENTRY64_middle alignof_KGDTENTRY64_middle
        layout_defs)

lemma alignof_KGDTENTRY64_struct: "alignof LLP64 KGDTENTRY64_struct = 4"
  by (simp add: KGDTENTRY64_struct_def alignof_KGDTENTRY64_middle)

lemma sizeof_KGDTENTRY64: "sizeof LLP64 KGDTENTRY64 = 16"
  by (simp add: KGDTENTRY64_def sizeof_KGDTENTRY64_struct alignof_KGDTENTRY64_struct
        layout_defs)

lemma alignof_KGDTENTRY64: "alignof LLP64 KGDTENTRY64 = 8"
  by (simp add: KGDTENTRY64_def alignof_KGDTENTRY64_struct)

lemma sizeof_KIDTENTRY64_struct: "sizeof LLP64 KIDTENTRY64_struct = 16"
  by (simp add: KIDTENTRY64_struct_def layout_defs)

lemma alignof_KIDTENTRY64_struct: "alignof LLP64 KIDTENTRY64_struct = 4"
  by (simp add: KIDTENTRY64_struct_def)

lemma sizeof_KIDTENTRY64: "sizeof LLP64 KIDTENTRY64 = 16"
  by (simp add: KIDTENTRY64_def sizeof_KIDTENTRY64_struct alignof_KIDTENTRY64_struct
        layout_defs)

lemma alignof_KIDTENTRY64: "alignof LLP64 KIDTENTRY64 = 8"
  by (simp add: KIDTENTRY64_def alignof_KIDTENTRY64_struct)

lemma bit_sum_KGDTENTRY64_struct: "bit_sum LLP64 KGDTENTRY64_struct = 128"
  by (simp add: KGDTENTRY64_struct_def bit_sum_def sizeof_KGDTENTRY64_middle)

lemma bit_sum_KIDTENTRY64_struct: "bit_sum LLP64 KIDTENTRY64_struct = 128"
  by (simp add: KIDTENTRY64_struct_def bit_sum_def)

lemma fields_KGDTENTRY64_Bytes:
  "fields LLP64 KGDTENTRY64_Bytes =
     [(''BaseMiddle'', 0, 8), (''Flags1'', 8, 8), (''Flags2'', 16, 8), (''BaseHigh'', 24, 8)]"
  by (simp add: KGDTENTRY64_Bytes_def layout_defs)

lemma fields_KGDTENTRY64_Bits:
  "fields LLP64 KGDTENTRY64_Bits =
     [(''BaseMiddle'', 0, 8), (''Type'', 8, 5), (''Dpl'', 13, 2), (''Present'', 15, 1),
      (''LimitHigh'', 16, 4), (''System'', 20, 1), (''LongMode'', 21, 1),
      (''DefaultBig'', 22, 1), (''Granularity'', 23, 1), (''BaseHigh'', 24, 8)]"
  by (simp add: KGDTENTRY64_Bits_def layout_defs)

lemma fields_KGDTENTRY64_middle:
  "fields LLP64 KGDTENTRY64_middle = [(''Bytes'', 0, 32), (''Bits'', 0, 32)]"
  by (simp add: KGDTENTRY64_middle_def fields_def sizeof_KGDTENTRY64_Bytes
        sizeof_KGDTENTRY64_Bits)

lemma fields_KGDTENTRY64_struct:
  "fields LLP64 KGDTENTRY64_struct =
     [(''LimitLow'', 0, 16), (''BaseLow'', 16, 16), ([], 32, 32),
      (''BaseUpper'', 64, 32), (''MustBeZero'', 96, 32)]"
  by (simp add: KGDTENTRY64_struct_def sizeof_KGDTENTRY64_middle alignof_KGDTENTRY64_middle
        layout_defs)

lemma fields_KIDTENTRY64_struct:
  "fields LLP64 KIDTENTRY64_struct =
     [(''OffsetLow'', 0, 16), (''Selector'', 16, 16), (''IstIndex'', 32, 3),
      (''Reserved0'', 35, 5), (''Type'', 40, 5), (''Dpl'', 45, 2), (''Present'', 47, 1),
      (''OffsetMiddle'', 48, 16), (''OffsetHigh'', 64, 32), (''Reserved1'', 96, 32)]"
  by (simp add: KIDTENTRY64_struct_def layout_defs)

lemma views_KGDTENTRY64:
  "structured_view KGDTENTRY64 = Some KGDTENTRY64_struct"
  "raw_view KGDTENTRY64 = Some (Prim UInt64)"
  by (simp_all add: KGDTENTRY64_def)

lemma views_KIDTENTRY64:
  "structured_view KIDTENTRY64 = Some KIDTENTRY64_struct"
  "raw_view KIDTENTRY64 = Some (Prim UInt64)"
  by (simp_all add: KIDTENTRY64_def)

text \<open>
  The two views differ in width whichever of the two data models is taken: with an
  8-byte \<open>unsigned long\<close> the structured views only grow.
\<close>

lemma views_differ_in_both_models:
  "sizeof dm KGDTENTRY64_struct \<noteq> sizeof dm (Prim UInt64)"
  "sizeof dm KIDTENTRY64_struct \<noteq> sizeof dm (Prim UInt64)"
  by (cases dm; simp add: KGDTENTRY64_struct_def KGDTENTRY64_middle_def KGDTENTRY64_Bits_def
        KGDTENTRY64_Bytes_def KIDTENTRY64_struct_def layout_defs)+

section \<open>The surfaces of the two translation units\<close>

lemmas unit_defs = input_h_def not_umdf_def hid_headers_def usb_headers_def
  kernel_mode_headers_def spb_headers_def parallel_ports_headers_def descriptor_types_def
  usb_input_h_def

lemma expand_append:
  "expand dm F (xs @ ys) =
     (case expand dm F xs of
        Inl e \<Rightarrow> Inl e
      | Inr ds \<Rightarrow> (case expand dm F ys of Inl e \<Rightarrow> Inl e | Inr ds' \<Rightarrow> Inr (ds @ ds')))"
  by (induction xs) (auto split: sum.splits)

lemma expand_input_h:
  "expand dm F input_h = Inr
     ((if UMDF_VERSION_MAJOR \<in> F then [Hdr ''windows.h'']
       else map Hdr [''ntifs.h'', ''ntddk.h'',
              ''hidclass.h'', ''hidport.h'', ''hidsdi.h'', ''kbdmou.h'', ''ntdd8042.h'',
              ''vhf.h'',
              ''usbspec.h'', ''usb.h'', ''usbbusif.h'', ''usbioctl.h'', ''usbdlib.h'',
              ''usbfnbase.h'', ''usbfnattach.h'', ''usbfnioctl.h'', ''wdf.h'', ''wdfusb.h'']
            @ (if KERNEL_MODE \<in> F
               then map Hdr [''ntintsafe.h'', ''ntstrsafe.h'', ''pepfx.h'', ''ntddstor.h'',
                      ''ude/1.0/UdeCx.h'']
               else [])
            @ map Hdr [''spb.h'', ''spb/1.1/spbcx.h'', ''reshub.h'', ''pwmutil.h'',
                ''gpio.h'', ''gpioclx.h'', ''ntddpar.h'', ''ntddser.h'', ''parallel.h'']
            @ [TypeName ''KGDTENTRY64'' KGDTENTRY64, PtrName ''PKGDTENTRY64'' ''KGDTENTRY64'',
               TypeName ''KIDTENTRY64'' KIDTENTRY64, PtrName ''PKIDTENTRY64'' ''KIDTENTRY64''])
      @ (if KMDF_VERSION_MAJOR \<in> F \<or> UMDF_VERSION_MAJOR \<in> F then [Hdr ''wdf.h''] else [])
      @ [Hdr ''TraceLoggingProvider.h''])"
  by (simp add: unit_defs)

lemma expand_usb_input_h:
  "expand dm F usb_input_h = Inr
     (map Hdr [''ntddk.h'',
        ''usbspec.h'', ''usb.h'', ''usbbusif.h'', ''usbioctl.h'', ''usbdlib.h'',
        ''usbfnbase.h'', ''usbfnattach.h'', ''usbfnioctl.h'', ''wdf.h'', ''wdfusb.h'']
      @ (if KERNEL_MODE \<in> F then [Hdr ''ude/1.0/UdeCx.h''] else []))"
  by (simp add: unit_defs)

lemma names_input_h:
  "names dm F input_h =
     (if UMDF_VERSION_MAJOR \<in> F then [''windows.h'']
      else [''ntifs.h'', ''ntddk.h'',
          ''hidclass.h'', ''hidport.h'', ''hidsdi.h'', ''kbdmou.h'', ''ntdd8042.h'', ''vhf.h'',
          ''usbspec.h'', ''usb.h'', ''usbbusif.h'', ''usbioctl.h'', ''usbdlib.h'',
          ''usbfnbase.h'', ''usbfnattach.h'', ''usbfnioctl.h'', ''wdf.h'', ''wdfusb.h'']
        @ (if KERNEL_MODE \<in> F
           then [''ntintsafe.h'', ''ntstrsafe.h'', ''pepfx.h'', ''ntddstor.h'',
                 ''ude/1.0/UdeCx.h'']
           else [])
        @ [''spb.h'', ''spb/1.1/spbcx.h'', ''reshub.h'', ''pwmutil.h'',
           ''gpio.h'', ''gpioclx.h'', ''ntddpar.h'', ''ntddser.h'', ''parallel.h'',
           ''KGDTENTRY64'', ''PKGDTENTRY64'', ''KIDTENTRY64'', ''PKIDTENTRY64''])
     @ (if KMDF_VERSION_MAJOR \<in> F \<or> UMDF_VERSION_MAJOR \<in> F then [''wdf.h''] else [])
     @ [''TraceLoggingProvider.h'']"
  by (simp add: names_def surface_def expand_input_h)

lemma surface_input_h_umdf:
  "UMDF_VERSION_MAJOR \<in> F \<Longrightarrow>
     surface dm F input_h = [Hdr ''windows.h'', Hdr ''wdf.h'', Hdr ''TraceLoggingProvider.h'']"
  by (simp add: surface_def expand_input_h)

lemma all_names_not_umdf:
  "all_names not_umdf =
     [''ntifs.h'', ''ntddk.h'',
      ''hidclass.h'', ''hidport.h'', ''hidsdi.h'', ''kbdmou.h'', ''ntdd8042.h'', ''vhf.h'',
      ''usbspec.h'', ''usb.h'', ''usbbusif.h'', ''usbioctl.h'', ''usbdlib.h'',
      ''usbfnbase.h'', ''usbfnattach.h'', ''usbfnioctl.h'', ''wdf.h'', ''wdfusb.h'',
      ''ntintsafe.h'', ''ntstrsafe.h'', ''pepfx.h'', ''ntddstor.h'', ''ude/1.0/UdeCx.h'',
      ''spb.h'', ''spb/1.1/spbcx.h'', ''reshub.h'', ''pwmutil.h'',
      ''gpio.h'', ''gpioclx.h'', ''ntddpar.h'', ''ntddser.h'', ''parallel.h'',
      ''KGDTENTRY64'', ''PKGDTENTRY64'', ''KIDTENTRY64'', ''PKIDTENTRY64'']"
  by (simp add: unit_defs)

lemma evaluated_input_h:
  "evaluated F input_h =
     Defined UMDF_VERSION_MAJOR
     # (if UMDF_VERSION_MAJOR \<in> F then [] else [Defined KERNEL_MODE])
     @ [Or (Defined KMDF_VERSION_MAJOR) (Defined UMDF_VERSION_MAJOR)]"
  by (simp add: unit_defs)

text \<open>
  The expansion depends on the flags only through the macros that the text tests, in
  whichever group.
\<close>

lemma eval_cond_agree:
  "\<forall>m \<in> set (cond_macros c). (m \<in> F) = (m \<in> G) \<Longrightarrow> eval_cond F c = eval_cond G c"
  by (induction c) auto

lemma expand_agree:
  "(\<forall>m \<in> set (item_macros i). (m \<in> F) = (m \<in> G))
     \<longrightarrow> expand_item dm F i = expand_item dm G i"
  "(\<forall>m \<in> set (macros is). (m \<in> F) = (m \<in> G)) \<longrightarrow> expand dm F is = expand dm G is"
proof (induction dm F i and dm F "is" rule: expand_item_expand.induct)
  case (2 dm F c ts es)
  show ?case
  proof
    assume a: "\<forall>m \<in> set (item_macros (Cond c ts es)). (m \<in> F) = (m \<in> G)"
    then have "eval_cond F c = eval_cond G c"
      by (intro eval_cond_agree) simp
    with a 2 show "expand_item dm F (Cond c ts es) = expand_item dm G (Cond c ts es)"
      by auto
  qed
qed (auto split: sum.splits)

lemma macros_input_h:
  "set (macros input_h) = {UMDF_VERSION_MAJOR, KERNEL_MODE, KMDF_VERSION_MAJOR}"
  by (auto simp add: unit_defs)

lemma macros_usb_input_h: "set (macros usb_input_h) = {KERNEL_MODE}"
  by (simp add: unit_defs)

text \<open>
  Neither unit can fail, and the second one never looks at \<open>UMDF_VERSION_MAJOR\<close>.
\<close>

lemma expand_never_fails:
  "\<not> isl (expand dm F input_h)" "\<not> isl (expand dm F usb_input_h)"
  by (simp_all add: expand_input_h expand_usb_input_h)

lemma usb_input_h_ignores_umdf:
  "expand dm (insert UMDF_VERSION_MAJOR F) usb_input_h = expand dm F usb_input_h"
  by (simp add: expand_usb_input_h)

text \<open>
  A size check after the declarations would fail every build of the first unit: the
  error branch of the expansion is live, it is the text that never reaches it.
\<close>

lemma size_check_would_fail:
  "expand LLP64 F
     (input_h @ [StaticAssert (Equal (SizeOf KIDTENTRY64_struct) (SizeOf (Prim UInt64))) msg])
   = Inl (AssertionFailed msg)"
  by (simp add: expand_append expand_input_h sizeof_KIDTENTRY64_struct)

text \<open>The pass with the names seen so far establishes the order by index.\<close>

lemma ordered_from_earlier:
  "ordered_from seen ds \<Longrightarrow> i < length ds \<Longrightarrow> r \<in> set (refs (ds ! i)) \<Longrightarrow>
     r \<in> set seen \<or> (\<exists>j < i. decl_name (ds ! j) = r)"
proof (induction ds arbitrary: seen i)
  case Nil
  then show ?case by simp
next
  case (Cons d ds)
  show ?case
  proof (cases i)
    case 0
    with Cons.prems show ?thesis by (auto simp: list_all_iff)
  next
    case (Suc k)
    from Cons.prems Suc have "ordered_from (decl_name d # seen) ds" "k < length ds"
      "r \<in> set (refs (ds ! k))" by simp_all
    from Cons.IH [OF this]
    have "r \<in> set (decl_name d # seen) \<or> (\<exists>j < k. decl_name (ds ! j) = r)" .
    then consider "r = decl_name d" | "r \<in> set seen"
      | j where "j < k" "decl_name (ds ! j) = r"
      by auto
    then show ?thesis
    proof cases
      case 1
      then have "0 < i \<and> decl_name ((d # ds) ! 0) = r" using Suc by simp
      then show ?thesis by blast
    next
      case 2
      then show ?thesis by simp
    next
      case 3
      then have "Suc j < i \<and> decl_name ((d # ds) ! Suc j) = r" using Suc by simp
      then show ?thesis by blast
    qed
  qed
qed

lemma ordered_from_dependency_ordered: "ordered_from [] ds \<Longrightarrow> dependency_ordered ds"
  unfolding dependency_ordered_def using ordered_from_earlier [of "[]" ds] by auto

lemma ordered_input_h: "ordered_from [] (surface dm F input_h)"
  by (simp add: surface_def expand_input_h header_refs_def)

lemma ordered_usb_input_h: "ordered_from [] (surface dm F usb_input_h)"
  by (simp add: surface_def expand_usb_input_h header_refs_def)

section \<open>The claims of the specification\<close>

subsection \<open>Widths of the two views (C1)\<close>

text \<open>
  Claim C1 as the specification states it, that the structured view and the integer
  alias of each descriptor entry type have the same width, 8 bytes, fails on both
  types: the named fields take 16 bytes, the member \<open>Alignment\<close> takes 8.
\<close>

theorem descriptor_entry_views_differ:
  "structured_view KGDTENTRY64 = Some KGDTENTRY64_struct
   \<and> raw_view KGDTENTRY64 = Some (Prim UInt64)
   \<and> sizeof LLP64 KGDTENTRY64_struct \<noteq> sizeof LLP64 (Prim UInt64)
   \<and> sizeof LLP64 KGDTENTRY64_struct \<noteq> 8
   \<and> structured_view KIDTENTRY64 = Some KIDTENTRY64_struct
   \<and> raw_view KIDTENTRY64 = Some (Prim UInt64)
   \<and> sizeof LLP64 KIDTENTRY64_struct \<noteq> sizeof LLP64 (Prim UInt64)
   \<and> sizeof LLP64 KIDTENTRY64_struct \<noteq> 8"
  by (simp add: views_KGDTENTRY64 views_KIDTENTRY64 sizeof_KGDTENTRY64_struct
        sizeof_KIDTENTRY64_struct)

text \<open>
  Claim C1, amended: for \<open>KGDTENTRY64\<close> and for \<open>KIDTENTRY64\<close> the structured view
  is 16 bytes wide (its fields sum to 128 bits), the integer alias \<open>Alignment\<close> is
  8 bytes wide, and the union has the size of its structured view, 16 bytes, with the
  alignment of the alias, 8 bytes.
\<close>

theorem descriptor_entry_view_widths:
  "structured_view KGDTENTRY64 = Some KGDTENTRY64_struct
   \<and> raw_view KGDTENTRY64 = Some (Prim UInt64)
   \<and> structured_view KIDTENTRY64 = Some KIDTENTRY64_struct
   \<and> raw_view KIDTENTRY64 = Some (Prim UInt64)
   \<and> sizeof LLP64 KGDTENTRY64_struct = 16 \<and> bit_sum LLP64 KGDTENTRY64_struct = 128
   \<and> sizeof LLP64 KIDTENTRY64_struct = 16 \<and> bit_sum LLP64 KIDTENTRY64_struct = 128
   \<and> sizeof LLP64 (Prim UInt64) = 8
   \<and> sizeof LLP64 KGDTENTRY64 = 16 \<and> alignof LLP64 KGDTENTRY64 = 8
   \<and> sizeof LLP64 KIDTENTRY64 = 16 \<and> alignof LLP64 KIDTENTRY64 = 8"
  by (simp add: views_KGDTENTRY64 views_KIDTENTRY64 sizeof_KGDTENTRY64_struct
        sizeof_KIDTENTRY64_struct bit_sum_KGDTENTRY64_struct bit_sum_KIDTENTRY64_struct
        sizeof_KGDTENTRY64 sizeof_KIDTENTRY64 alignof_KGDTENTRY64 alignof_KIDTENTRY64)

subsection \<open>A width mismatch is not rejected (C2)\<close>

text \<open>
  Claim C2 as stated fails on the text itself: the fields of \<open>KIDTENTRY64\<close> sum to
  128 bits, its alias has 64, and a kernel-mode build succeeds with the declaration
  in its surface.
\<close>

theorem KIDTENTRY64_mismatch_not_rejected:
  "bit_sum LLP64 KIDTENTRY64_struct = 128
   \<and> 8 * sizeof LLP64 (Prim UInt64) = 64
   \<and> \<not> isl (expand LLP64 {KERNEL_MODE} input_h)
   \<and> TypeName ''KIDTENTRY64'' KIDTENTRY64 \<in> set (surface LLP64 {KERNEL_MODE} input_h)"
  by (simp add: bit_sum_KIDTENTRY64_struct surface_def expand_input_h)

text \<open>
  Claim C2, amended: the declaration of the interrupt-descriptor-entry type lists
  structured fields that sum to 128 bits beside an integer alias of 64 bits, and no
  build rejects it: the expansion succeeds under every set of flags, and whenever
  \<open>UMDF_VERSION_MAJOR\<close> is not defined the declaration is part of the surface.
\<close>

theorem KIDTENTRY64_mismatch_is_declared:
  "bit_sum LLP64 KIDTENTRY64_struct = 128
   \<and> raw_view KIDTENTRY64 = Some (Prim UInt64)
   \<and> 8 * sizeof LLP64 (Prim UInt64) = 64
   \<and> \<not> isl (expand LLP64 F input_h)
   \<and> (UMDF_VERSION_MAJOR \<notin> F \<longrightarrow>
        TypeName ''KIDTENTRY64'' KIDTENTRY64 \<in> set (surface LLP64 F input_h))"
  by (simp add: bit_sum_KIDTENTRY64_struct views_KIDTENTRY64 surface_def expand_input_h)

text \<open>The amended C2 at the flags of a kernel-mode framework build.\<close>

theorem KIDTENTRY64_mismatch_is_declared_witness:
  "UMDF_VERSION_MAJOR \<notin> {KMDF_VERSION_MAJOR, KERNEL_MODE}
   \<and> \<not> isl (expand LLP64 {KMDF_VERSION_MAJOR, KERNEL_MODE} input_h)
   \<and> TypeName ''KIDTENTRY64'' KIDTENTRY64
       \<in> set (surface LLP64 {KMDF_VERSION_MAJOR, KERNEL_MODE} input_h)"
  using KIDTENTRY64_mismatch_is_declared [of "{KMDF_VERSION_MAJOR, KERNEL_MODE}"] by simp

subsection \<open>No compile-time size check (C3)\<close>

text \<open>
  Claim C3 as stated fails: the first translation unit, which declares both types,
  holds no assertion and no \<open>#error\<close> in any of its groups.
\<close>

theorem input_h_holds_no_check: "checks input_h = []"
  by (simp add: unit_defs)

text \<open>
  Claim C3, amended: neither translation unit contains an assertion or another
  compile-time check, so no width is verified and no build fails on one; what holds of
  the sizes is that each union is as large as its structured view.
\<close>

theorem no_size_check_in_units:
  "checks input_h = [] \<and> checks usb_input_h = []
   \<and> \<not> isl (expand LLP64 F input_h)
   \<and> sizeof LLP64 KGDTENTRY64 = sizeof LLP64 KGDTENTRY64_struct
   \<and> sizeof LLP64 KIDTENTRY64 = sizeof LLP64 KIDTENTRY64_struct"
  by (simp add: expand_input_h sizeof_KGDTENTRY64 sizeof_KIDTENTRY64
        sizeof_KGDTENTRY64_struct sizeof_KIDTENTRY64_struct) (simp add: unit_defs)

subsection \<open>Both execution-mode flags defined (C4)\<close>




subsection \<open>Missing flags (C5)\<close>

text \<open>
  Claim C5 as stated fails: with no flag defined at all the surface holds the HID and
  USB headers, and the SPB headers with the versioned \<open>spb/1.1/spbcx.h\<close>.
\<close>

theorem groups_included_without_flags:
  "''hidclass.h'' \<in> set (names LLP64 {} input_h)
   \<and> ''usb.h'' \<in> set (names LLP64 {} input_h)
   \<and> ''spb.h'' \<in> set (names LLP64 {} input_h)
   \<and> ''spb/1.1/spbcx.h'' \<in> set (names LLP64 {} input_h)"
  by (simp add: names_input_h)

text \<open>
  Claim C5, amended: the headers of the \<open>_KERNEL_MODE\<close> group are excluded from the
  surface when \<open>_KERNEL_MODE\<close> is not defined, and \<open>windows.h\<close> is excluded when
  \<open>UMDF_VERSION_MAJOR\<close> is not defined; the framework group at the end of the unit,
  under \<open>defined(KMDF_VERSION_MAJOR) || defined(UMDF_VERSION_MAJOR)\<close>, expands to
  nothing when neither of its flags is defined. The groups of the other branch that
  have no test of their own and no note on their gating (\<open>ntifs.h\<close>, \<open>ntddk.h\<close>, the HID
  headers, the USB headers from \<open>usbspec.h\<close> to \<open>usbfnioctl.h\<close>, GPIO and parallel
  ports) are included whenever \<open>UMDF_VERSION_MAJOR\<close> is not defined, also when no
  flag is; and a flag the text does not test changes nothing.
\<close>

theorem flag_tests_decide_inclusion:
  "(KERNEL_MODE \<notin> F \<longrightarrow>
      (\<forall>n \<in> set (all_names kernel_mode_headers). n \<notin> set (names dm F input_h)))
   \<and> (UMDF_VERSION_MAJOR \<notin> F \<longrightarrow> ''windows.h'' \<notin> set (names dm F input_h))
   \<and> input_h ! 1
       = Cond (Or (Defined KMDF_VERSION_MAJOR) (Defined UMDF_VERSION_MAJOR))
           [Include Angled ''wdf.h''] []
   \<and> (KMDF_VERSION_MAJOR \<notin> F \<and> UMDF_VERSION_MAJOR \<notin> F \<longrightarrow>
        expand_item dm F (input_h ! 1) = Inr [])
   \<and> (UMDF_VERSION_MAJOR \<notin> F \<longrightarrow>
        set (all_names ([Include Quoted ''ntifs.h'', Include Quoted ''ntddk.h'']
              @ hid_headers @ usb_headers @ parallel_ports_headers))
          - {''wdf.h'', ''wdfusb.h''}
          \<subseteq> set (names dm F input_h))
   \<and> surface dm F input_h
       = surface dm (F \<inter> {UMDF_VERSION_MAJOR, KERNEL_MODE, KMDF_VERSION_MAJOR}) input_h"
proof -
  have k: "KERNEL_MODE \<notin> F \<longrightarrow>
      (\<forall>n \<in> set (all_names kernel_mode_headers). n \<notin> set (names dm F input_h))"
    by (cases "UMDF_VERSION_MAJOR \<in> F"; cases "KMDF_VERSION_MAJOR \<in> F")
      (simp_all add: names_input_h kernel_mode_headers_def)
  have w: "UMDF_VERSION_MAJOR \<notin> F \<longrightarrow> ''windows.h'' \<notin> set (names dm F input_h)"
    by (cases "KERNEL_MODE \<in> F"; cases "KMDF_VERSION_MAJOR \<in> F")
      (simp_all add: names_input_h)
  have i: "input_h ! 1
       = Cond (Or (Defined KMDF_VERSION_MAJOR) (Defined UMDF_VERSION_MAJOR))
           [Include Angled ''wdf.h''] []"
    by (simp add: input_h_def)
  have f: "KMDF_VERSION_MAJOR \<notin> F \<and> UMDF_VERSION_MAJOR \<notin> F \<longrightarrow>
        expand_item dm F (input_h ! 1) = Inr []"
    unfolding i by simp
  have g: "UMDF_VERSION_MAJOR \<notin> F \<longrightarrow>
        set (all_names ([Include Quoted ''ntifs.h'', Include Quoted ''ntddk.h'']
              @ hid_headers @ usb_headers @ parallel_ports_headers))
          - {''wdf.h'', ''wdfusb.h''}
          \<subseteq> set (names dm F input_h)"
    by (cases "KERNEL_MODE \<in> F"; cases "KMDF_VERSION_MAJOR \<in> F")
      (auto simp add: names_input_h hid_headers_def usb_headers_def
         parallel_ports_headers_def)
  have u: "surface dm F input_h
       = surface dm (F \<inter> {UMDF_VERSION_MAJOR, KERNEL_MODE, KMDF_VERSION_MAJOR}) input_h"
    by (simp add: surface_def expand_input_h)
  from k w i f g u show ?thesis by blast
qed

text \<open>The amended C5 at the empty set of flags.\<close>

theorem flag_tests_decide_inclusion_witness:
  "KERNEL_MODE \<notin> {} \<and> UMDF_VERSION_MAJOR \<notin> {} \<and> KMDF_VERSION_MAJOR \<notin> {}
   \<and> ''ntddstor.h'' \<notin> set (names LLP64 {} input_h)
   \<and> ''windows.h'' \<notin> set (names LLP64 {} input_h)
   \<and> expand_item LLP64 {} (input_h ! 1) = Inr []
   \<and> ''hidclass.h'' \<in> set (names LLP64 {} input_h)
   \<and> ''usbfnioctl.h'' \<in> set (names LLP64 {} input_h)"
proof -
  note t = flag_tests_decide_inclusion [of "{}" LLP64]
  have h: "KERNEL_MODE \<notin> {}" "UMDF_VERSION_MAJOR \<notin> {}" "KMDF_VERSION_MAJOR \<notin> {}"
    by simp_all
  from t h(1)
  have k: "\<forall>n \<in> set (all_names kernel_mode_headers). n \<notin> set (names LLP64 {} input_h)"
    by (elim conjE) (erule mp)
  have "''ntddstor.h'' \<in> set (all_names kernel_mode_headers)"
    by (simp add: kernel_mode_headers_def)
  with k have s: "''ntddstor.h'' \<notin> set (names LLP64 {} input_h)"
    by (rule bspec)
  from t h(2) have w: "''windows.h'' \<notin> set (names LLP64 {} input_h)"
    by (elim conjE) (erule mp)
  from t h(2,3) have f: "expand_item LLP64 {} (input_h ! 1) = Inr []"
    by (elim conjE) (erule mp, rule conjI)
  from t h(2)
  have g: "set (all_names ([Include Quoted ''ntifs.h'', Include Quoted ''ntddk.h'']
              @ hid_headers @ usb_headers @ parallel_ports_headers))
          - {''wdf.h'', ''wdfusb.h''}
          \<subseteq> set (names LLP64 {} input_h)"
    by (elim conjE) (erule mp)
  have "''hidclass.h'' \<in> set (all_names ([Include Quoted ''ntifs.h'', Include Quoted ''ntddk.h'']
              @ hid_headers @ usb_headers @ parallel_ports_headers)) - {''wdf.h'', ''wdfusb.h''}"
    by (simp add: hid_headers_def usb_headers_def parallel_ports_headers_def)
  with g have c: "''hidclass.h'' \<in> set (names LLP64 {} input_h)"
    by (rule subsetD)
  have "''usbfnioctl.h'' \<in> set (all_names ([Include Quoted ''ntifs.h'', Include Quoted ''ntddk.h'']
              @ hid_headers @ usb_headers @ parallel_ports_headers)) - {''wdf.h'', ''wdfusb.h''}"
    by (simp add: hid_headers_def usb_headers_def parallel_ports_headers_def)
  with g have d: "''usbfnioctl.h'' \<in> set (names LLP64 {} input_h)"
    by (rule subsetD)
  from h s w f c d show ?thesis by (intro conjI)
qed

subsection \<open>User-mode builds (C6)\<close>

text \<open>
  Claim C6 as stated, for every build with \<open>UMDF_VERSION_MAJOR\<close> defined, fails on
  the second translation unit: \<open>usb-input.h\<close> does not test that macro, so such a
  build has \<open>ntddk.h\<close> on its surface, a header of the kernel branch of the first
  unit, and with \<open>_KERNEL_MODE\<close> defined as well that test is evaluated and
  \<open>ude/1.0/UdeCx.h\<close> included.
\<close>

theorem usb_input_h_umdf_build_has_kernel_headers:
  "''ntddk.h'' \<in> set (all_names not_umdf)
   \<and> ''ntddk.h'' \<in> set (names LLP64 {UMDF_VERSION_MAJOR, KERNEL_MODE} usb_input_h)
   \<and> ''ude/1.0/UdeCx.h'' \<in> set (all_names not_umdf)
   \<and> ''ude/1.0/UdeCx.h'' \<in> set (names LLP64 {UMDF_VERSION_MAJOR, KERNEL_MODE} usb_input_h)
   \<and> Defined KERNEL_MODE \<in> set (evaluated {UMDF_VERSION_MAJOR, KERNEL_MODE} usb_input_h)"
  by (simp add: all_names_not_umdf names_def surface_def expand_usb_input_h)
    (simp add: usb_input_h_def usb_headers_def)

text \<open>
  Claim C6, amended: in every build of the first translation unit with
  \<open>UMDF_VERSION_MAJOR\<close> defined, the surface is \<open>windows.h\<close>, \<open>wdf.h\<close>,
  \<open>TraceLoggingProvider.h\<close>. No name of the other branch is in it apart from
  \<open>wdf.h\<close>, which the framework group at the end includes; in particular neither
  \<open>KGDTENTRY64\<close> nor \<open>KIDTENTRY64\<close> is. The test of \<open>_KERNEL_MODE\<close>, nested in
  the excluded branch, is not evaluated, and defining or undefining \<open>_KERNEL_MODE\<close>
  leaves the surface as it is.
\<close>

theorem umdf_excludes_kernel_groups:
  assumes "UMDF_VERSION_MAJOR \<in> F"
  shows "surface dm F input_h
      = [Hdr ''windows.h'', Hdr ''wdf.h'', Hdr ''TraceLoggingProvider.h'']
    \<and> (\<forall>n \<in> set (all_names not_umdf). n \<noteq> ''wdf.h'' \<longrightarrow> n \<notin> set (names dm F input_h))
    \<and> ''KGDTENTRY64'' \<notin> set (names dm F input_h)
    \<and> ''KIDTENTRY64'' \<notin> set (names dm F input_h)
    \<and> Defined KERNEL_MODE \<notin> set (evaluated F input_h)
    \<and> surface dm (F \<union> {KERNEL_MODE}) input_h = surface dm F input_h
    \<and> surface dm (F - {KERNEL_MODE}) input_h = surface dm F input_h"
proof -
  have s: "surface dm F input_h
      = [Hdr ''windows.h'', Hdr ''wdf.h'', Hdr ''TraceLoggingProvider.h'']"
    using assms by (rule surface_input_h_umdf)
  have n: "names dm F input_h = [''windows.h'', ''wdf.h'', ''TraceLoggingProvider.h'']"
    by (simp add: names_def s)
  have a: "\<forall>n \<in> set (all_names not_umdf). n \<noteq> ''wdf.h'' \<longrightarrow> n \<notin> set (names dm F input_h)"
    unfolding n all_names_not_umdf by simp
  have k: "''KGDTENTRY64'' \<notin> set (names dm F input_h)"
    "''KIDTENTRY64'' \<notin> set (names dm F input_h)"
    unfolding n by simp_all
  have e: "Defined KERNEL_MODE \<notin> set (evaluated F input_h)"
    using assms by (simp add: evaluated_input_h)
  have u: "surface dm (F \<union> {KERNEL_MODE}) input_h = surface dm F input_h"
    using assms by (simp add: s surface_input_h_umdf)
  have d: "surface dm (F - {KERNEL_MODE}) input_h = surface dm F input_h"
    using assms by (simp add: s surface_input_h_umdf)
  from s a k e u d show ?thesis by blast
qed

text \<open>
  The amended C6 at a build that defines \<open>_KERNEL_MODE\<close> beside
  \<open>UMDF_VERSION_MAJOR\<close>.
\<close>

theorem umdf_excludes_kernel_groups_witness:
  "UMDF_VERSION_MAJOR \<in> {UMDF_VERSION_MAJOR, KERNEL_MODE}
   \<and> surface LLP64 {UMDF_VERSION_MAJOR, KERNEL_MODE} input_h
       = [Hdr ''windows.h'', Hdr ''wdf.h'', Hdr ''TraceLoggingProvider.h'']
   \<and> ''ntddstor.h'' \<in> set (all_names not_umdf)
   \<and> ''ntddstor.h'' \<notin> set (names LLP64 {UMDF_VERSION_MAJOR, KERNEL_MODE} input_h)
   \<and> ''KGDTENTRY64'' \<notin> set (names LLP64 {UMDF_VERSION_MAJOR, KERNEL_MODE} input_h)
   \<and> Defined KERNEL_MODE \<notin> set (evaluated {UMDF_VERSION_MAJOR, KERNEL_MODE} input_h)"
proof -
  have h: "UMDF_VERSION_MAJOR \<in> {UMDF_VERSION_MAJOR, KERNEL_MODE}" by simp
  have m: "''ntddstor.h'' \<in> set (all_names not_umdf)" by (simp add: all_names_not_umdf)
  from umdf_excludes_kernel_groups [OF h, of LLP64] m h show ?thesis by auto
qed

subsection \<open>The storage header in a kernel-mode build (C7)\<close>

text \<open>
  Claim C7 asks that a kernel-mode build without a storage flag leaves the storage
  group out. The text has no storage flag: \<open>ntddstor.h\<close> stands in the
  \<open>_KERNEL_MODE\<close> group, under the note that its headers are still to be gated one
  by one, and a build that defines \<open>_KERNEL_MODE\<close> alone includes it.
\<close>

theorem storage_header_in_kernel_build:
  "''ntddstor.h'' \<in> set (names LLP64 {KERNEL_MODE} input_h)"
  by (simp add: names_input_h)

subsection \<open>Determinism (C8)\<close>

text \<open>
  Claim C8: the outcome of a build, and with it the ordered list of declarations, is a
  function of the flags alone, and only of those the text tests: two builds whose
  flags agree on \<open>UMDF_VERSION_MAJOR\<close>, \<open>_KERNEL_MODE\<close> and
  \<open>KMDF_VERSION_MAJOR\<close> expand the first unit to the same result, and two builds
  whose flags agree on \<open>_KERNEL_MODE\<close> expand \<open>usb-input.h\<close> to the same result.
  Builds with identical flags are the special case.
\<close>

theorem expansion_determined_by_flags:
  "((UMDF_VERSION_MAJOR \<in> F) = (UMDF_VERSION_MAJOR \<in> G)
     \<and> (KERNEL_MODE \<in> F) = (KERNEL_MODE \<in> G)
     \<and> (KMDF_VERSION_MAJOR \<in> F) = (KMDF_VERSION_MAJOR \<in> G)
     \<longrightarrow> expand dm F input_h = expand dm G input_h)
   \<and> ((KERNEL_MODE \<in> F) = (KERNEL_MODE \<in> G)
     \<longrightarrow> expand dm F usb_input_h = expand dm G usb_input_h)"
  using expand_agree(2) [of input_h F G dm] expand_agree(2) [of usb_input_h F G dm]
  by (simp add: macros_input_h macros_usb_input_h)

text \<open>C8 at two kernel-mode builds, one of which defines a macro the text never tests.\<close>

theorem expansion_determined_by_flags_witness:
  "(UMDF_VERSION_MAJOR \<in> {KERNEL_MODE, ''NTDDI_VERSION''}) = (UMDF_VERSION_MAJOR \<in> {KERNEL_MODE})
   \<and> (KERNEL_MODE \<in> {KERNEL_MODE, ''NTDDI_VERSION''}) = (KERNEL_MODE \<in> {KERNEL_MODE})
   \<and> (KMDF_VERSION_MAJOR \<in> {KERNEL_MODE, ''NTDDI_VERSION''}) = (KMDF_VERSION_MAJOR \<in> {KERNEL_MODE})
   \<and> expand LLP64 {KERNEL_MODE, ''NTDDI_VERSION''} input_h = expand LLP64 {KERNEL_MODE} input_h
   \<and> expand LLP64 {KERNEL_MODE, ''NTDDI_VERSION''} usb_input_h
       = expand LLP64 {KERNEL_MODE} usb_input_h"
  using expansion_determined_by_flags [of "{KERNEL_MODE, ''NTDDI_VERSION''}" "{KERNEL_MODE}" LLP64]
  by simp

subsection \<open>Dependency order (C9)\<close>

text \<open>
  Claim C9: in the surface of either translation unit, under every set of flags, each
  name that a declaration refers to is declared at a smaller index: \<open>usbspec.h\<close> and
  \<open>usb.h\<close> come before \<open>usbbusif.h\<close>, \<open>usbioctl.h\<close>, \<open>usbdlib.h\<close>, the three
  \<open>usbfn\<close> headers and \<open>wdfusb.h\<close>, \<open>wdf.h\<close> comes before \<open>wdfusb.h\<close>, and
  each type name before its pointer name.
\<close>

theorem surfaces_dependency_ordered:
  "dependency_ordered (surface dm F input_h) \<and> dependency_ordered (surface dm F usb_input_h)"
  by (simp add: ordered_from_dependency_ordered ordered_input_h ordered_usb_input_h)

text \<open>
  C9 at a kernel-mode build: \<open>wdfusb.h\<close> is the declaration at index 17, and the
  three headers it refers to are found below that index.
\<close>

theorem surfaces_dependency_ordered_witness:
  "surface LLP64 {KERNEL_MODE} input_h ! 17 = Hdr ''wdfusb.h''
   \<and> refs (Hdr ''wdfusb.h'') = [''usbspec.h'', ''usb.h'', ''wdf.h'']
   \<and> (\<exists>j < 17. decl_name (surface LLP64 {KERNEL_MODE} input_h ! j) = ''usbspec.h'')
   \<and> (\<exists>j < 17. decl_name (surface LLP64 {KERNEL_MODE} input_h ! j) = ''usb.h'')
   \<and> (\<exists>j < 17. decl_name (surface LLP64 {KERNEL_MODE} input_h ! j) = ''wdf.h'')"
proof -
  have s: "surface LLP64 {KERNEL_MODE} input_h ! 17 = Hdr ''wdfusb.h''"
    by (simp add: surface_def expand_input_h)
  have l: "17 < length (surface LLP64 {KERNEL_MODE} input_h)"
    by (simp add: surface_def expand_input_h)
  have r: "refs (Hdr ''wdfusb.h'') = [''usbspec.h'', ''usb.h'', ''wdf.h'']"
    by (simp add: header_refs_def)
  from surfaces_dependency_ordered [of LLP64 "{KERNEL_MODE}"]
  have "dependency_ordered (surface LLP64 {KERNEL_MODE} input_h)"
    by simp
  then have "\<forall>r \<in> set (refs (surface LLP64 {KERNEL_MODE} input_h ! 17)).
      \<exists>j < 17. decl_name (surface LLP64 {KERNEL_MODE} input_h ! j) = r"
    using l unfolding dependency_ordered_def by blast
  with s r show ?thesis by simp
qed

subsection \<open>The two views of the middle storage of \<open>KGDTENTRY64\<close> (C10)\<close>

text \<open>
  Claim C10: the \<open>Bytes\<close> view has four fields of 8 bits, the \<open>Bits\<close> view ten
  bit-fields of widths 8, 5, 2, 1, 4, 1, 1, 1, 1, 8. Each view sums to 32 bits, its
  fields lie back to back from bit 0, each view is 4 bytes in size, and both start at
  offset 0 of their union of 4 bytes.
\<close>

theorem KGDTENTRY64_middle_views_32_bits:
  "bit_sum LLP64 KGDTENTRY64_Bytes = 32 \<and> bit_sum LLP64 KGDTENTRY64_Bits = 32
   \<and> map (\<lambda>(n, off, w). w) (fields LLP64 KGDTENTRY64_Bytes) = [8, 8, 8, 8]
   \<and> map (\<lambda>(n, off, w). w) (fields LLP64 KGDTENTRY64_Bits) = [8, 5, 2, 1, 4, 1, 1, 1, 1, 8]
   \<and> packed_from 0 (fields LLP64 KGDTENTRY64_Bytes)
   \<and> packed_from 0 (fields LLP64 KGDTENTRY64_Bits)
   \<and> sizeof LLP64 KGDTENTRY64_Bytes = 4 \<and> sizeof LLP64 KGDTENTRY64_Bits = 4
   \<and> sizeof LLP64 KGDTENTRY64_middle = 4
   \<and> fields LLP64 KGDTENTRY64_middle = [(''Bytes'', 0, 32), (''Bits'', 0, 32)]"
  apply (simp only: fields_KGDTENTRY64_Bits fields_KGDTENTRY64_Bytes fields_KGDTENTRY64_middle
     sizeof_KGDTENTRY64_Bytes sizeof_KGDTENTRY64_Bits sizeof_KGDTENTRY64_middle)
  apply (simp add: bit_sum_def KGDTENTRY64_Bits_def KGDTENTRY64_Bytes_def)
  done

end
